theory Spec2Isabelle
  imports Complex_Main
begin

section \<open>Python primitives used by the speech analyzer\<close>

text \<open>
  The analyzer (\<^verbatim>\<open>src/backend/speech_analyzer.py\<close>) is a pipeline of pure functions over
  a transcript string.  Python floats are modelled as exact rationals, Python ints as
  \<open>int\<close>, and every exception the code can raise is a value of \<open>error\<close>.
  A character is one of Isabelle's 256 \<open>char\<close>s, read as the code point of the same
  number; the classes \<^verbatim>\<open>\s\<close>, \<^verbatim>\<open>\w\<close> and \<^verbatim>\<open>str.lower\<close> below are Python's on that range.
\<close>

datatype error = ValueError | KeyError | ZeroDivisionError | LookupError

fun bind_err :: "error + 'a \<Rightarrow> ('a \<Rightarrow> error + 'b) \<Rightarrow> error + 'b" where
  "bind_err (Inl e) f = Inl e"
| "bind_err (Inr v) f = f v"

definition py_truediv :: "rat \<Rightarrow> rat \<Rightarrow> error + rat" where
  \<comment> \<open>\<^verbatim>\<open>a / b\<close>: raises on a zero divisor\<close>
  "py_truediv a b = (if b = 0 then Inl ZeroDivisionError else Inr (a / b))"

definition py_round :: "rat \<Rightarrow> int" where
  \<comment> \<open>nearest integer, a tie going to the even neighbour\<close>
  "py_round x =
     (let f = \<lfloor>x\<rfloor>; d = x - of_int f in
      if d < 1 / 2 then f
      else if 1 / 2 < d then f + 1
      else if even f then f else f + 1)"

definition py_round_n :: "rat \<Rightarrow> nat \<Rightarrow> rat" where
  \<comment> \<open>\<^verbatim>\<open>round(x, n)\<close>: a float again, with \<open>n\<close> decimals\<close>
  "py_round_n x n = of_int (py_round (x * 10 ^ n)) / 10 ^ n"

definition py_int :: "rat \<Rightarrow> int" where
  \<comment> \<open>\<^verbatim>\<open>int(x)\<close>: truncation towards zero\<close>
  "py_int x = (if 0 \<le> x then \<lfloor>x\<rfloor> else \<lceil>x\<rceil>)"

definition dict_get :: "(string \<rightharpoonup> 'v) \<Rightarrow> string \<Rightarrow> error + 'v" where
  \<comment> \<open>\<^verbatim>\<open>d[k]\<close>\<close>
  "dict_get d k = (case d k of None \<Rightarrow> Inl KeyError | Some v \<Rightarrow> Inr v)"

subsection \<open>Characters and strings\<close>

definition is_space :: "char \<Rightarrow> bool" where
  \<comment> \<open>\<^verbatim>\<open>str.isspace\<close> and the regex class \<^verbatim>\<open>\s\<close>\<close>
  "is_space c =
     (let n = (of_char c :: nat) in
      (9 \<le> n \<and> n \<le> 13) \<or> (28 \<le> n \<and> n \<le> 32) \<or> n = 133 \<or> n = 160)"

definition is_word_char :: "char \<Rightarrow> bool" where
  \<comment> \<open>the regex class \<^verbatim>\<open>\w\<close>: alphanumeric or underscore\<close>
  "is_word_char c =
     (let n = (of_char c :: nat) in
      (48 \<le> n \<and> n \<le> 57) \<or> (65 \<le> n \<and> n \<le> 90) \<or> n = 95 \<or> (97 \<le> n \<and> n \<le> 122) \<or>
      n = 170 \<or> n = 178 \<or> n = 179 \<or> n = 181 \<or> n = 185 \<or> n = 186 \<or>
      (188 \<le> n \<and> n \<le> 190) \<or> (192 \<le> n \<and> n \<le> 214) \<or> (216 \<le> n \<and> n \<le> 246) \<or>
      248 \<le> n)"

definition lower_char :: "char \<Rightarrow> char" where
  "lower_char c =
     (let n = (of_char c :: nat) in
      if (65 \<le> n \<and> n \<le> 90) \<or> (192 \<le> n \<and> n \<le> 214) \<or> (216 \<le> n \<and> n \<le> 222)
      then char_of (n + 32) else c)"

definition py_lower :: "string \<Rightarrow> string" where
  "py_lower s = map lower_char s"

definition py_strip :: "string \<Rightarrow> string" where
  "py_strip s = rev (dropWhile is_space (rev (dropWhile is_space s)))"

fun py_count :: "string \<Rightarrow> string \<Rightarrow> nat" where
  \<comment> \<open>\<^verbatim>\<open>s.count(sub)\<close>: occurrences that do not overlap, found left to right\<close>
  "py_count [] sub = (if sub = [] then 1 else 0)"
| "py_count (c # cs) sub =
     (if sub = [] then length cs + 2
      else if take (length sub) (c # cs) = sub
           then 1 + py_count (drop (length sub - 1) cs) sub
      else py_count cs sub)"

function collapse_ws :: "string \<Rightarrow> string" where
  \<comment> \<open>\<^verbatim>\<open>re.sub(r'\s+', ' ', text)\<close>\<close>
  "collapse_ws [] = []"
| "collapse_ws (c # cs) =
     (if is_space c then CHR '' '' # collapse_ws (dropWhile is_space cs)
      else c # collapse_ws cs)"
  by pat_completeness auto
termination
  by (relation "measure length") (auto simp: le_imp_less_Suc length_dropWhile_le)

function runs_of :: "(char \<Rightarrow> bool) \<Rightarrow> string \<Rightarrow> string list" where
  \<comment> \<open>the maximal runs of characters satisfying \<open>P\<close>, left to right\<close>
  "runs_of P [] = []"
| "runs_of P (c # cs) =
     (if P c then (c # takeWhile P cs) # runs_of P (dropWhile P cs)
      else runs_of P cs)"
  by pat_completeness auto
termination
  by (relation "measure (\<lambda>(P, s). length s)") (auto simp: le_imp_less_Suc length_dropWhile_le)

definition py_split :: "string \<Rightarrow> string list" where
  \<comment> \<open>\<^verbatim>\<open>s.split()\<close>\<close>
  "py_split s = runs_of (\<lambda>c. \<not> is_space c) s"

function re_split :: "(char \<Rightarrow> bool) \<Rightarrow> string \<Rightarrow> string list" where
  \<comment> \<open>\<^verbatim>\<open>re.split(r'[...]+', text)\<close> for the character class \<open>d\<close>\<close>
  "re_split d s =
     (case dropWhile (\<lambda>c. \<not> d c) s of
        [] \<Rightarrow> [s]
      | c # rest \<Rightarrow> takeWhile (\<lambda>c. \<not> d c) s # re_split d (dropWhile d rest))"
  by pat_completeness auto
termination
proof (relation "measure (\<lambda>(d, s). length s)")
  show "wf (measure (\<lambda>(d, s). length s))" by simp
next
  fix d :: "char \<Rightarrow> bool" and s :: string and c rest
  assume eq: "dropWhile (\<lambda>c. \<not> d c) s = c # rest"
  have "length (dropWhile d rest) \<le> length rest"
    by (rule length_dropWhile_le)
  moreover have "length (c # rest) \<le> length s"
    using length_dropWhile_le [of "\<lambda>c. \<not> d c" s] by (simp add: eq)
  ultimately show "((d, dropWhile d rest), (d, s)) \<in> measure (\<lambda>(d, s). length s)"
    by simp
qed

definition py_join :: "string \<Rightarrow> string list \<Rightarrow> string" where
  \<comment> \<open>\<^verbatim>\<open>sep.join(parts)\<close>\<close>
  "py_join sep parts = (case parts of [] \<Rightarrow> [] | p # ps \<Rightarrow> p @ concat (map (\<lambda>q. sep @ q) ps))"

function show_nat :: "nat \<Rightarrow> string" where
  "show_nat n =
     (if n < 10 then [char_of (48 + n)]
      else show_nat (n div 10) @ [char_of (48 + n mod 10)])"
  by pat_completeness auto
termination
  by (relation "measure id") auto

definition show_int :: "int \<Rightarrow> string" where
  \<comment> \<open>\<^verbatim>\<open>str(i)\<close>\<close>
  "show_int i = (if i < 0 then CHR ''-'' # show_nat (nat (- i)) else show_nat (nat i))"

definition format_f0 :: "rat \<Rightarrow> string" where
  \<comment> \<open>\<^verbatim>\<open>f"{x:.0f}"\<close>\<close>
  "format_f0 x = (if x < 0 then ''-'' else []) @ show_nat (nat (py_round \<bar>x\<bar>))"

definition format_f1 :: "rat \<Rightarrow> string" where
  \<comment> \<open>\<^verbatim>\<open>f"{x:.1f}"\<close>\<close>
  "format_f1 x =
     (let r = nat (py_round (\<bar>x\<bar> * 10)) in
      (if x < 0 then ''-'' else []) @ show_nat (r div 10) @ ''.'' @ show_nat (r mod 10))"

declare show_nat.simps [simp del]
declare re_split.simps [simp del]

section \<open>The analyzer\<close>

subsection \<open>Fixed lexical sets of \<^verbatim>\<open>SpeechAnalyzer.__init__\<close>\<close>

definition filler_words :: "string set" where
  "filler_words =
     {''um'', ''uh'', ''er'', ''ah'', ''well'', ''you know'', ''like'', ''so'',
      ''basically'', ''actually'', ''i mean'', ''sort of'', ''kind of''}"

definition word_finding_indicators :: "string set" where
  "word_finding_indicators =
     {''thing'', ''stuff'', ''what do you call it'', ''whatchamacallit'',
      ''thingy'', ''whatsit'', ''that thing'', ''you know what i mean''}"

definition semantic_categories :: "(string \<times> string set) list" where
  "semantic_categories =
     [(''animals'',
        {''dog'', ''cat'', ''bird'', ''fish'', ''horse'', ''cow'', ''pig'', ''sheep'',
         ''chicken'', ''duck'', ''rabbit'', ''mouse'', ''elephant'', ''lion'', ''tiger''}),
      (''fruits'',
        {''apple'', ''banana'', ''orange'', ''grape'', ''strawberry'', ''peach'',
         ''pear'', ''cherry'', ''plum'', ''watermelon'', ''pineapple'', ''mango''})]"

subsection \<open>Normalizer and tokenizers\<close>

definition clean_text :: "string \<Rightarrow> string" where
  "clean_text text = py_strip (collapse_ws (py_lower text))"

definition tokenize_words :: "string \<Rightarrow> string list" where
  \<comment> \<open>\<^verbatim>\<open>re.findall(r'\b\w+\b', text)\<close>, then the words longer than one character\<close>
  "tokenize_words text = filter (\<lambda>word. 1 < length word) (runs_of is_word_char text)"

definition is_sentence_end :: "char \<Rightarrow> bool" where
  "is_sentence_end c = (c = CHR ''.'' \<or> c = CHR ''!'' \<or> c = CHR ''?'')"

definition tokenize_sentences :: "(string \<Rightarrow> error + string list) \<Rightarrow> string \<Rightarrow> string list" where
  \<comment> \<open>\<open>sent_tokenize\<close> is the external \<^verbatim>\<open>nltk.sent_tokenize\<close>; whatever it raises is caught\<close>
  "tokenize_sentences sent_tokenize text =
     (case sent_tokenize text of
        Inr sentences \<Rightarrow> filter (\<lambda>s. 0 < length (py_strip s)) sentences
      | Inl e \<Rightarrow>
          map py_strip (filter (\<lambda>s. py_strip s \<noteq> []) (re_split is_sentence_end text)))"

subsection \<open>Feature extractors\<close>

type_synonym metadata = "(string \<times> rat) list option"

definition calculate_speech_rate :: "string list \<Rightarrow> metadata \<Rightarrow> error + rat" where
  \<comment> \<open>\<open>estimate\<close> is the early return taken when \<^verbatim>\<open>not metadata or 'duration' not in metadata\<close>\<close>
  "calculate_speech_rate words metadata =
     (let estimate = Inr (max 60 (min 200 (of_nat (length words) * 2))) in
      case metadata of
        None \<Rightarrow> estimate
      | Some d \<Rightarrow>
          if d = [] \<or> map_of d ''duration'' = None then estimate
          else
            let duration = (case map_of d ''duration'' of Some v \<Rightarrow> v | None \<Rightarrow> 30);
                duration = (if duration \<le> 0 then 30 else duration)
            in bind_err (py_truediv (of_nat (length words)) duration)
                 (\<lambda>q. Inr (py_round_n (q * 60) 1)))"

definition pause_indicators :: "string list" where
  "pause_indicators = [''...'', ''..'', ''um'', ''uh'', ''er'', ''ah'']"

definition estimate_pause_count :: "string \<Rightarrow> int" where
  "estimate_pause_count transcript =
     (let pause_count =
            fold (\<lambda>indicator n. n + int (py_count (py_lower transcript) indicator))
              pause_indicators 0;
          pause_count = pause_count + int (py_count transcript '','');
          pause_count = pause_count + int (py_count transcript '';'') * 2
      in min pause_count 20)"

definition calculate_vocabulary_richness :: "string list \<Rightarrow> error + rat" where
  "calculate_vocabulary_richness words =
     (if words = [] then Inr 0
      else bind_err (py_truediv (of_nat (card (set words))) (of_nat (length words)))
             (\<lambda>ttr. Inr (py_round_n ttr 3)))"

definition analyze_repetitions :: "string list \<Rightarrow> error + rat" where
  \<comment> \<open>\<^verbatim>\<open>Counter(words)\<close>: each distinct word with its number of occurrences\<close>
  "analyze_repetitions words =
     (if words = [] then Inr 0
      else
        let word_counts = map (\<lambda>w. int (count_list words w)) (remdups words);
            repetitions = sum_list (map (\<lambda>count. count - 1) (filter (\<lambda>count. 2 < count) word_counts))
        in py_truediv (of_int repetitions) (of_nat (max (length words) 1)))"

definition analyze_word_finding :: "string \<Rightarrow> string list \<Rightarrow> error + rat" where
  "analyze_word_finding transcript words =
     (let difficulty_score =
            (\<Sum>indicator\<in>word_finding_indicators. of_nat (py_count (py_lower transcript) indicator));
          difficulty_score = difficulty_score + of_nat (py_count transcript ''...'')
      in bind_err (py_truediv difficulty_score (of_nat (max (length words) 1)))
           (\<lambda>q. Inr (min q 1)))"

definition calculate_fluency_score :: "string \<Rightarrow> string list \<Rightarrow> error + rat" where
  "calculate_fluency_score transcript words =
     (let score = 10;
          filler_count = length (filter (\<lambda>word. word \<in> filler_words) words)
      in bind_err (py_truediv (of_nat filler_count) (of_nat (max (length words) 1)))
           (\<lambda>filler_ratio.
              let score = score - filler_ratio * 30
              in bind_err (analyze_repetitions words)
                   (\<lambda>repetition_penalty.
                      let score = score - repetition_penalty * 2
                      in bind_err (analyze_word_finding transcript words)
                           (\<lambda>word_finding_penalty.
                              let score = score - word_finding_penalty * 3
                              in Inr (max 0 (min 10 (py_round_n score 1)))))))"

definition analyze_semantic_fluency :: "string list \<Rightarrow> error + rat" where
  "analyze_semantic_fluency words =
     (let category_words =
            fold (\<lambda>(category, word_set) acc. acc \<union> set (filter (\<lambda>word. word \<in> word_set) words))
              semantic_categories {}
      in py_truediv (of_nat (card category_words)) (of_nat (max (length words) 1)))"

definition analyze_syntactic_complexity :: "string list \<Rightarrow> error + rat" where
  \<comment> \<open>the division by the literal 15.0 cannot raise\<close>
  "analyze_syntactic_complexity sentences =
     (if sentences = [] then Inr 0
      else
        let total_complexity =
              fold (\<lambda>sentence total.
                      let words_in_sentence = length (py_split sentence);
                          complexity = min (of_nat words_in_sentence / 15) 1
                      in total + complexity)
                sentences 0
        in py_truediv total_complexity (of_nat (length sentences)))"

subsection \<open>Risk aggregator\<close>

record features =
  speech_rate :: rat
  pause_count :: int
  vocabulary_richness :: rat
  fluency_score :: rat
  semantic_fluency :: rat
  syntactic_complexity :: rat
  repetition_score :: rat
  word_finding_difficulty :: rat

definition feature_dict :: "features \<Rightarrow> (string \<rightharpoonup> rat)" where
  \<comment> \<open>the dict literal that \<^verbatim>\<open>analyze\<close> passes to the aggregator\<close>
  "feature_dict fv =
     [''speech_rate'' \<mapsto> speech_rate fv,
      ''pause_count'' \<mapsto> of_int (pause_count fv),
      ''vocabulary_richness'' \<mapsto> vocabulary_richness fv,
      ''fluency_score'' \<mapsto> fluency_score fv,
      ''semantic_fluency'' \<mapsto> semantic_fluency fv,
      ''syntactic_complexity'' \<mapsto> syntactic_complexity fv,
      ''repetition_score'' \<mapsto> repetition_score fv,
      ''word_finding_difficulty'' \<mapsto> word_finding_difficulty fv]"

definition calculate_risk_score :: "(string \<rightharpoonup> rat) \<Rightarrow> error + rat" where
  "calculate_risk_score metrics =
     (let risk_score = 0 in
      bind_err (dict_get metrics ''speech_rate'') (\<lambda>speech_rate.
      let risk_score =
            (if speech_rate < 80 then risk_score + 25
             else if speech_rate < 100 then risk_score + 15
             else if 200 < speech_rate then risk_score + 10
             else risk_score) in
      bind_err (dict_get metrics ''pause_count'') (\<lambda>pause_count.
      let risk_score =
            (if 15 < pause_count then risk_score + 20
             else if 10 < pause_count then risk_score + 10
             else if 5 < pause_count then risk_score + 5
             else risk_score) in
      bind_err (dict_get metrics ''vocabulary_richness'') (\<lambda>vocab_richness.
      let risk_score =
            (if vocab_richness < 3 / 10 then risk_score + 25
             else if vocab_richness < 4 / 10 then risk_score + 15
             else if vocab_richness < 5 / 10 then risk_score + 5
             else risk_score) in
      bind_err (dict_get metrics ''fluency_score'') (\<lambda>fluency.
      let risk_score =
            (if fluency < 3 then risk_score + 25
             else if fluency < 5 then risk_score + 15
             else if fluency < 7 then risk_score + 5
             else risk_score);
          risk_score =
            (case metrics ''word_finding_difficulty'' of
               Some v \<Rightarrow> risk_score + v * 20
             | None \<Rightarrow> risk_score);
          risk_score =
            (case metrics ''repetition_score'' of
               Some v \<Rightarrow> risk_score + v * 15
             | None \<Rightarrow> risk_score)
      in Inr (min 100 (max 0 (py_round_n risk_score 0))))))))"

subsection \<open>Explanation generator\<close>

record explained_metrics =
  \<comment> \<open>the four-entry dict literal that \<^verbatim>\<open>analyze\<close> passes to the generator\<close>
  ex_speech_rate :: rat
  ex_pause_count :: int
  ex_vocabulary_richness :: rat
  ex_fluency_score :: rat

definition generate_explanation :: "rat \<Rightarrow> explained_metrics \<Rightarrow> string" where
  "generate_explanation risk_score metrics =
     (let explanations = [];
          explanations =
            (if risk_score < 30 then
               explanations @ [''Speech patterns appear normal with good fluency and vocabulary use.'']
             else if risk_score < 70 then
               explanations @ [''Some speech patterns may warrant attention, showing mild concerns in certain areas.'']
             else
               explanations @ [''Several speech patterns suggest potential cognitive changes that may benefit from professional evaluation.'']);
          speech_rate = ex_speech_rate metrics;
          explanations =
            (if speech_rate < 80 then
               explanations @ [''Speech rate is notably slow at '' @ format_f1 speech_rate @
                               '' words/minute (typical range: 120-180).'']
             else if 200 < speech_rate then
               explanations @ [''Speech rate is quite fast at '' @ format_f1 speech_rate @
                               '' words/minute, which may indicate anxiety or other factors.'']
             else explanations);
          pause_count = ex_pause_count metrics;
          explanations =
            (if 10 < pause_count then
               explanations @ [''Frequent pauses detected ('' @ show_int pause_count @
                               '' instances), which may indicate word-finding difficulties.'']
             else explanations);
          vocab_richness = ex_vocabulary_richness metrics;
          explanations =
            (if vocab_richness < 4 / 10 then
               explanations @ [''Vocabulary diversity is lower than expected ('' @
                               format_f0 (vocab_richness * 100) @ ''% unique words).'']
             else explanations);
          fluency = ex_fluency_score metrics;
          explanations =
            (if fluency < 5 then
               explanations @ [''Fluency score is concerning ('' @ format_f1 fluency @
                               ''/10), with evidence of hesitations or word-finding issues.'']
             else explanations);
          explanations =
            (if explanations = [] then
               explanations @ [''All speech metrics appear within normal ranges for this sample.'']
             else explanations)
      in py_join '' '' explanations)"

subsection \<open>The pipeline\<close>

record metrics_out =
  speechRate :: rat
  pauseCount :: int
  vocabularyRichness :: rat
  fluencyScore :: rat

record analysis =
  riskScore :: int
  explanation :: string
  metrics :: metrics_out

definition analyze ::
  "(string \<Rightarrow> error + string list) \<Rightarrow> string \<Rightarrow> metadata \<Rightarrow> error + analysis" where
  \<comment> \<open>\<open>sent_tokenize\<close> is the external \<^verbatim>\<open>nltk.sent_tokenize\<close>\<close>
  "analyze sent_tokenize transcript metadata =
     (if transcript = [] \<or> py_strip transcript = [] then Inl ValueError
      else
        let cleaned_text = clean_text transcript;
            words = tokenize_words cleaned_text;
            sentences = tokenize_sentences sent_tokenize cleaned_text
        in
        bind_err (calculate_speech_rate words metadata) (\<lambda>speech_rate.
        let pause_count = estimate_pause_count transcript in
        bind_err (calculate_vocabulary_richness words) (\<lambda>vocabulary_richness.
        bind_err (calculate_fluency_score transcript words) (\<lambda>fluency_score.
        bind_err (analyze_semantic_fluency words) (\<lambda>semantic_fluency.
        bind_err (analyze_syntactic_complexity sentences) (\<lambda>syntactic_complexity.
        bind_err (analyze_repetitions words) (\<lambda>repetition_score.
        bind_err (analyze_word_finding transcript words) (\<lambda>word_finding_difficulty.
        bind_err (calculate_risk_score (feature_dict
            \<lparr>speech_rate = speech_rate,
             pause_count = pause_count,
             vocabulary_richness = vocabulary_richness,
             fluency_score = fluency_score,
             semantic_fluency = semantic_fluency,
             syntactic_complexity = syntactic_complexity,
             repetition_score = repetition_score,
             word_finding_difficulty = word_finding_difficulty\<rparr>)) (\<lambda>risk_score.
        let explanation = generate_explanation risk_score
              \<lparr>ex_speech_rate = speech_rate,
               ex_pause_count = pause_count,
               ex_vocabulary_richness = vocabulary_richness,
               ex_fluency_score = fluency_score\<rparr>
        in Inr \<lparr>riskScore = py_int risk_score,
                explanation = explanation,
                metrics = \<lparr>speechRate = speech_rate,
                           pauseCount = pause_count,
                           vocabularyRichness = vocabulary_richness,
                           fluencyScore = fluency_score\<rparr>\<rparr>)))))))))"

section \<open>Reference rules, as the specification words them\<close>

text \<open>
  The aggregator of the specification: per feature a table of disjoint bands, each adding
  its points when the value lies in it, then the two continuous contributions, a clamp to
  \<open>[0, 100]\<close> and a rounding to the nearest integer.
\<close>

definition speech_rate_points :: "rat \<Rightarrow> rat" where
  "speech_rate_points x =
     (if x < 80 then 25 else 0) + (if 80 \<le> x \<and> x < 100 then 15 else 0) + (if 200 < x then 10 else 0)"

definition pause_count_points :: "int \<Rightarrow> rat" where
  "pause_count_points p =
     (if 15 < p then 20 else 0) + (if 10 < p \<and> p \<le> 15 then 10 else 0) + (if 5 < p \<and> p \<le> 10 then 5 else 0)"

definition vocabulary_richness_points :: "rat \<Rightarrow> rat" where
  "vocabulary_richness_points x =
     (if x < 3 / 10 then 25 else 0) + (if 3 / 10 \<le> x \<and> x < 4 / 10 then 15 else 0) +
     (if 4 / 10 \<le> x \<and> x < 5 / 10 then 5 else 0)"

definition fluency_score_points :: "rat \<Rightarrow> rat" where
  "fluency_score_points x =
     (if x < 3 then 25 else 0) + (if 3 \<le> x \<and> x < 5 then 15 else 0) + (if 5 \<le> x \<and> x < 7 then 5 else 0)"

definition clamp :: "rat \<Rightarrow> rat \<Rightarrow> rat \<Rightarrow> rat" where
  "clamp x lo hi = max lo (min hi x)"

definition reference_sum :: "features \<Rightarrow> rat" where
  "reference_sum fv =
     0 + speech_rate_points (speech_rate fv) + pause_count_points (pause_count fv)
       + vocabulary_richness_points (vocabulary_richness fv) + fluency_score_points (fluency_score fv)
       + word_finding_difficulty fv * 20 + repetition_score fv * 15"





text \<open>
  The filler count of the specification: single-token fillers matched against the tokens,
  the multi-word filler phrases counted as substrings of the raw transcript; and the
  fluency score computed from it.
\<close>

definition filler_phrases :: "string list" where
  "filler_phrases = [''you know'', ''i mean'', ''sort of'', ''kind of'']"

definition filler_word_count_spec :: "string \<Rightarrow> string list \<Rightarrow> nat" where
  "filler_word_count_spec transcript words =
     length (filter (\<lambda>word. word \<in> filler_words) words) +
     sum_list (map (\<lambda>phrase. py_count transcript phrase) filler_phrases)"

definition fluency_score_spec :: "string \<Rightarrow> string list \<Rightarrow> rat \<Rightarrow> rat \<Rightarrow> rat" where
  "fluency_score_spec transcript words repetition difficulty =
     py_round_n
       (clamp (10 - 30 * (of_nat (filler_word_count_spec transcript words) / of_nat (max (length words) 1))
                  - 2 * repetition - 3 * difficulty) 0 10) 1"

section \<open>Properties\<close>

subsection \<open>Rounding, division and the extractors\<close>

lemma py_round_of_int: "py_round (of_int n) = n"
  by (simp add: py_round_def)

lemma py_round_cases: "py_round x = \<lfloor>x\<rfloor> \<or> py_round x = \<lfloor>x\<rfloor> + 1"
  by (simp add: py_round_def Let_def)



lemma py_round_mono: "x \<le> y \<Longrightarrow> py_round x \<le> py_round y"
proof -
  assume le: "x \<le> y"
  have fl: "\<lfloor>x\<rfloor> \<le> \<lfloor>y\<rfloor>" using le by (rule floor_mono)
  show ?thesis
  proof (cases "\<lfloor>x\<rfloor> = \<lfloor>y\<rfloor>")
    case True
    then show ?thesis using le unfolding py_round_def Let_def by auto
  next
    case False
    then have "\<lfloor>x\<rfloor> + 1 \<le> \<lfloor>y\<rfloor>" using fl by linarith
    moreover have "py_round x \<le> \<lfloor>x\<rfloor> + 1" using py_round_cases [of x] by linarith
    moreover have "\<lfloor>y\<rfloor> \<le> py_round y" using py_round_cases [of y] by linarith
    ultimately show ?thesis by linarith
  qed
qed

lemma py_round_n_0: "py_round_n x 0 = of_int (py_round x)"
  by (simp add: py_round_n_def)

lemma py_truediv_Inr: "b \<noteq> 0 \<Longrightarrow> py_truediv a b = Inr (a / b)"
  by (simp add: py_truediv_def)

lemma py_strip_empty_iff: "py_strip s = [] \<longleftrightarrow> list_all is_space s"
proof
  assume "py_strip s = []"
  then have all: "\<forall>c \<in> set (dropWhile is_space s). is_space c"
    by (simp add: py_strip_def dropWhile_eq_Nil_conv)
  have "dropWhile is_space s = []"
  proof (rule ccontr)
    assume ne: "dropWhile is_space s \<noteq> []"
    then have "\<not> is_space (hd (dropWhile is_space s))" by (rule hd_dropWhile)
    moreover have "hd (dropWhile is_space s) \<in> set (dropWhile is_space s)" using ne by simp
    ultimately show False using all by blast
  qed
  then show "list_all is_space s"
    by (simp add: dropWhile_eq_Nil_conv list_all_iff)
next
  assume "list_all is_space s"
  then have "dropWhile is_space s = []"
    by (simp add: dropWhile_eq_Nil_conv list_all_iff)
  then show "py_strip s = []" by (simp only: py_strip_def) simp
qed

lemma calculate_speech_rate_total: "\<exists>v. calculate_speech_rate words md = Inr v"
  by (auto simp: calculate_speech_rate_def Let_def py_truediv_def split: option.splits)

lemma calculate_vocabulary_richness_Inr:
  "calculate_vocabulary_richness words =
     Inr (if words = [] then 0 else py_round_n (of_nat (card (set words)) / of_nat (length words)) 3)"
  by (simp add: calculate_vocabulary_richness_def py_truediv_def)

lemma analyze_repetitions_Inr:
  "analyze_repetitions words =
     Inr (if words = [] then 0
          else of_int (sum_list (map (\<lambda>count. count - 1)
                 (filter (\<lambda>count. 2 < count) (map (\<lambda>w. int (count_list words w)) (remdups words)))))
               / of_nat (max (length words) 1))"
  by (simp add: analyze_repetitions_def py_truediv_def Let_def)

lemma analyze_word_finding_Inr:
  "analyze_word_finding transcript words =
     Inr (min (((\<Sum>indicator\<in>word_finding_indicators. of_nat (py_count (py_lower transcript) indicator))
               + of_nat (py_count transcript ''...'')) / of_nat (max (length words) 1)) 1)"
  by (simp add: analyze_word_finding_def py_truediv_def Let_def)

lemma calculate_fluency_score_Inr:
  "\<exists>v. calculate_fluency_score transcript words = Inr v \<and> 0 \<le> v \<and> v \<le> 10"
  by (simp add: calculate_fluency_score_def py_truediv_def Let_def analyze_repetitions_Inr analyze_word_finding_Inr)

lemma analyze_semantic_fluency_total: "\<exists>v. analyze_semantic_fluency words = Inr v"
  by (simp add: analyze_semantic_fluency_def py_truediv_def Let_def)

lemma analyze_syntactic_complexity_total: "\<exists>v. analyze_syntactic_complexity sentences = Inr v"
  by (simp add: analyze_syntactic_complexity_def py_truediv_def Let_def)

subsection \<open>The aggregator on a full feature vector\<close>

lemma feature_dict_lookups:
  "feature_dict fv ''speech_rate'' = Some (speech_rate fv)"
  "feature_dict fv ''pause_count'' = Some (of_int (pause_count fv))"
  "feature_dict fv ''vocabulary_richness'' = Some (vocabulary_richness fv)"
  "feature_dict fv ''fluency_score'' = Some (fluency_score fv)"
  "feature_dict fv ''repetition_score'' = Some (repetition_score fv)"
  "feature_dict fv ''word_finding_difficulty'' = Some (word_finding_difficulty fv)"
  by (simp_all add: feature_dict_def)

lemma speech_rate_band:
  "(if x < 80 then r + 25 else if x < 100 then r + 15 else if 200 < x then r + 10 else r) =
     r + speech_rate_points x"
  by (simp add: speech_rate_points_def)

lemma pause_count_band:
  "(if 15 < (of_int p :: rat) then r + 20 else if 10 < (of_int p :: rat) then r + 10
    else if 5 < (of_int p :: rat) then r + 5 else r) = r + pause_count_points p"
  by (simp add: pause_count_points_def)

lemma vocabulary_richness_band:
  "(if x < 3 / 10 then r + 25 else if x < 4 / 10 then r + 15 else if x < 5 / 10 then r + 5 else r) =
     r + vocabulary_richness_points x"
  by (simp add: vocabulary_richness_points_def)

lemma fluency_score_band:
  "(if x < 3 then r + 25 else if x < 5 then r + 15 else if x < 7 then r + 5 else r) =
     r + fluency_score_points x"
  by (simp add: fluency_score_points_def)

lemma calculate_risk_score_features:
  "calculate_risk_score (feature_dict fv) =
     Inr (min 100 (max 0 (of_int (py_round (reference_sum fv)))))"
  unfolding calculate_risk_score_def dict_get_def Let_def feature_dict_lookups
  by (simp only: option.case bind_err.simps speech_rate_band pause_count_band
        vocabulary_richness_band fluency_score_band py_round_n_0 reference_sum_def)



lemma pause_count_points_mono: "p \<le> p' \<Longrightarrow> pause_count_points p \<le> pause_count_points p'"
  by (simp add: pause_count_points_def)

lemma reference_sum_pause_mono:
  "p \<le> p' \<Longrightarrow> reference_sum (fv\<lparr>pause_count := p\<rparr>) \<le> reference_sum (fv\<lparr>pause_count := p'\<rparr>)"
  using pause_count_points_mono [of p p'] by (simp add: reference_sum_def)

lemma py_round_n_bounds:
  assumes "0 \<le> x" "x \<le> 1"
  shows "0 \<le> py_round_n x k \<and> py_round_n x k \<le> 1"
proof -
  have lo: "py_round 0 \<le> py_round (x * 10 ^ k)"
    using assms by (intro py_round_mono) simp
  have "x * 10 ^ k \<le> of_int (10 ^ k)" using assms by (simp add: mult_left_le_one_le)
  then have hi: "py_round (x * 10 ^ k) \<le> py_round (of_int (10 ^ k))"
    by (rule py_round_mono)
  have z: "py_round 0 = 0" using py_round_of_int [of 0] by simp
  have r0: "0 \<le> py_round (x * 10 ^ k)" using lo z by simp
  have r1: "py_round (x * 10 ^ k) \<le> 10 ^ k" using hi by (simp only: py_round_of_int)
  have q0: "(0 :: rat) \<le> of_int (py_round (x * 10 ^ k))" using r0 by simp
  have "(of_int (py_round (x * 10 ^ k)) :: rat) \<le> of_int (10 ^ k)"
    using r1 by (simp only: of_int_le_iff)
  then have q1: "(of_int (py_round (x * 10 ^ k)) :: rat) \<le> 10 ^ k" by simp
  have pos: "(0 :: rat) < 10 ^ k" by simp
  show ?thesis
    unfolding py_round_n_def using q0 q1 pos by (simp add: divide_le_eq_1)
qed

lemma calculate_vocabulary_richness_bounds:
  "\<exists>v. calculate_vocabulary_richness words = Inr v \<and> 0 \<le> v \<and> v \<le> 1 \<and> (words = [] \<longrightarrow> v = 0)"
proof (cases "words = []")
  case True
  then show ?thesis by (simp add: calculate_vocabulary_richness_Inr)
next
  case False
  have "card (set words) \<le> length words" by (rule card_length)
  then have "(of_nat (card (set words)) :: rat) / of_nat (length words) \<le> 1"
    using False by (simp add: divide_le_eq_1)
  moreover have "0 \<le> (of_nat (card (set words)) :: rat) / of_nat (length words)" by simp
  ultimately show ?thesis
    using False py_round_n_bounds [of "of_nat (card (set words)) / of_nat (length words)" 3]
    by (simp add: calculate_vocabulary_richness_Inr)
qed

lemma py_int_of_int: "py_int (of_int n) = n"
  by (simp add: py_int_def)

lemma analyze_blank:
  "transcript = [] \<or> list_all is_space transcript \<Longrightarrow> analyze sent_tokenize transcript md = Inl ValueError"
  by (auto simp: analyze_def py_strip_empty_iff)

lemma reference_sum_unused:
  "reference_sum \<lparr>speech_rate = sr, pause_count = pc, vocabulary_richness = vr,
                  fluency_score = fs, semantic_fluency = sf, syntactic_complexity = sc,
                  repetition_score = rs, word_finding_difficulty = wfd\<rparr> =
   reference_sum \<lparr>speech_rate = sr, pause_count = pc, vocabulary_richness = vr,
                  fluency_score = fs, semantic_fluency = 0, syntactic_complexity = 0,
                  repetition_score = rs, word_finding_difficulty = wfd\<rparr>"
  by (simp add: reference_sum_def)

lemma analyze_returns:
  assumes "\<not> list_all is_space transcript"
  shows "\<exists>sr vr fs rs wfd.
           calculate_speech_rate (tokenize_words (clean_text transcript)) md = Inr sr \<and>
           calculate_vocabulary_richness (tokenize_words (clean_text transcript)) = Inr vr \<and>
           calculate_fluency_score transcript (tokenize_words (clean_text transcript)) = Inr fs \<and>
           analyze_repetitions (tokenize_words (clean_text transcript)) = Inr rs \<and>
           analyze_word_finding transcript (tokenize_words (clean_text transcript)) = Inr wfd \<and>
           analyze sent_tokenize transcript md =
             (let risk = min 100 (max 0 (py_round (reference_sum
                    \<lparr>speech_rate = sr, pause_count = estimate_pause_count transcript,
                     vocabulary_richness = vr, fluency_score = fs, semantic_fluency = 0,
                     syntactic_complexity = 0, repetition_score = rs,
                     word_finding_difficulty = wfd\<rparr>)))
              in Inr \<lparr>riskScore = risk,
                  explanation = generate_explanation (of_int risk)
                    \<lparr>ex_speech_rate = sr, ex_pause_count = estimate_pause_count transcript,
                     ex_vocabulary_richness = vr, ex_fluency_score = fs\<rparr>,
                  metrics = \<lparr>speechRate = sr, pauseCount = estimate_pause_count transcript,
                             vocabularyRichness = vr, fluencyScore = fs\<rparr>\<rparr>)"
proof -
  let ?words = "tokenize_words (clean_text transcript)"
  let ?sentences = "tokenize_sentences sent_tokenize (clean_text transcript)"
  from assms have nb: "transcript \<noteq> []" "py_strip transcript \<noteq> []"
    by (auto simp: py_strip_empty_iff)
  obtain sr where sr: "calculate_speech_rate ?words md = Inr sr"
    using calculate_speech_rate_total by blast
  obtain vr where vr: "calculate_vocabulary_richness ?words = Inr vr"
    by (simp add: calculate_vocabulary_richness_Inr)
  obtain fs where fs: "calculate_fluency_score transcript ?words = Inr fs"
    using calculate_fluency_score_Inr by blast
  obtain sf where sf: "analyze_semantic_fluency ?words = Inr sf"
    using analyze_semantic_fluency_total by blast
  obtain sc where sc: "analyze_syntactic_complexity ?sentences = Inr sc"
    using analyze_syntactic_complexity_total by blast
  obtain rs where rs: "analyze_repetitions ?words = Inr rs"
    by (simp add: analyze_repetitions_Inr)
  obtain wfd where wfd: "analyze_word_finding transcript ?words = Inr wfd"
    by (simp add: analyze_word_finding_Inr)
  let ?fv = "\<lparr>speech_rate = sr, pause_count = estimate_pause_count transcript,
              vocabulary_richness = vr, fluency_score = fs, semantic_fluency = sf,
              syntactic_complexity = sc, repetition_score = rs, word_finding_difficulty = wfd\<rparr>"
  let ?base = "\<lparr>speech_rate = sr, pause_count = estimate_pause_count transcript,
              vocabulary_richness = vr, fluency_score = fs, semantic_fluency = 0,
              syntactic_complexity = 0, repetition_score = rs, word_finding_difficulty = wfd\<rparr>"
  have "calculate_risk_score (feature_dict ?fv) =
                Inr (of_int (min 100 (max 0 (py_round (reference_sum ?fv)))))"
    by (simp only: calculate_risk_score_features) simp
  then have risk: "calculate_risk_score (feature_dict ?fv) =
                Inr (of_int (min 100 (max 0 (py_round (reference_sum ?base)))))"
    by (simp only: reference_sum_unused [of sr _ vr fs sf sc rs wfd])
  have pi: "py_int (of_int (min 100 (max 0 (py_round (reference_sum ?base))))) =
              min 100 (max 0 (py_round (reference_sum ?base)))"
    by (rule py_int_of_int)
  have "analyze sent_tokenize transcript md =
          Inr \<lparr>riskScore = min 100 (max 0 (py_round (reference_sum ?base))),
               explanation = generate_explanation (of_int (min 100 (max 0 (py_round (reference_sum ?base)))))
                 \<lparr>ex_speech_rate = sr, ex_pause_count = estimate_pause_count transcript,
                  ex_vocabulary_richness = vr, ex_fluency_score = fs\<rparr>,
               metrics = \<lparr>speechRate = sr, pauseCount = estimate_pause_count transcript,
                          vocabularyRichness = vr, fluencyScore = fs\<rparr>\<rparr>"
    unfolding analyze_def Let_def
    by (simp only: nb sr vr fs sf sc rs wfd risk pi bind_err.simps if_False simp_thms)
  with sr vr fs rs wfd show ?thesis unfolding Let_def by blast
qed

subsection \<open>Claims\<close>





text \<open>
  C8: with every other feature fixed, a larger pause count never gives a smaller risk
  score, and the points of the pause-count bands never decrease as the pause count grows;
  in particular the score does not drop when the pause count passes 15.
\<close>

theorem risk_score_monotone_in_pause_count:
  "p \<le> p' \<Longrightarrow>
   pause_count_points p \<le> pause_count_points p' \<and>
   (\<exists>r r'. calculate_risk_score (feature_dict (fv\<lparr>pause_count := p\<rparr>)) = Inr r \<and>
            calculate_risk_score (feature_dict (fv\<lparr>pause_count := p'\<rparr>)) = Inr r' \<and> r \<le> r')"
proof -
  assume le: "p \<le> p'"
  have "py_round (reference_sum (fv\<lparr>pause_count := p\<rparr>)) \<le> py_round (reference_sum (fv\<lparr>pause_count := p'\<rparr>))"
    using le by (intro py_round_mono reference_sum_pause_mono)
  then have "min 100 (max 0 (rat_of_int (py_round (reference_sum (fv\<lparr>pause_count := p\<rparr>))))) \<le>
             min 100 (max 0 (rat_of_int (py_round (reference_sum (fv\<lparr>pause_count := p'\<rparr>)))))"
    by (simp add: min_def max_def)
  then show ?thesis
    using pause_count_points_mono [OF le] by (simp only: calculate_risk_score_features) simp
qed

theorem risk_score_monotone_in_pause_count_witness:
  "(15 :: int) \<le> 16 \<and>
   pause_count_points 15 \<le> pause_count_points 16 \<and>
   (\<exists>r r'.
      calculate_risk_score (feature_dict
        (\<lparr>speech_rate = 120, pause_count = 0, vocabulary_richness = 8 / 10,
          fluency_score = 10, semantic_fluency = 0, syntactic_complexity = 1,
          repetition_score = 0, word_finding_difficulty = 0\<rparr>\<lparr>pause_count := 15\<rparr>)) = Inr r \<and>
      calculate_risk_score (feature_dict
        (\<lparr>speech_rate = 120, pause_count = 0, vocabulary_richness = 8 / 10,
          fluency_score = 10, semantic_fluency = 0, syntactic_complexity = 1,
          repetition_score = 0, word_finding_difficulty = 0\<rparr>\<lparr>pause_count := 16\<rparr>)) = Inr r' \<and>
      r \<le> r')"
  using risk_score_monotone_in_pause_count [of 15 16
    "\<lparr>speech_rate = 120, pause_count = 0, vocabulary_richness = 8 / 10,
      fluency_score = 10, semantic_fluency = 0, syntactic_complexity = 1,
      repetition_score = 0, word_finding_difficulty = 0\<rparr>"]
  by simp

text \<open>
  C1: for every transcript that is neither empty nor whitespace-only, and any metadata,
  \<open>analyze\<close> returns a result whose \<open>riskScore\<close> is an integer between 0 and 100.
\<close>

theorem risk_score_in_range:
  "transcript \<noteq> [] \<Longrightarrow> \<not> list_all is_space transcript \<Longrightarrow>
   \<exists>r. analyze sent_tokenize transcript md = Inr r \<and> 0 \<le> riskScore r \<and> riskScore r \<le> 100"
proof -
  assume "\<not> list_all is_space transcript"
  from analyze_returns [OF this, of md sent_tokenize]
  obtain r risk where "analyze sent_tokenize transcript md = Inr r" "riskScore r = min 100 (max 0 risk)"
    unfolding Let_def by force
  then show ?thesis by simp
qed

theorem risk_score_in_range_witness:
  "''hello there'' \<noteq> [] \<and> \<not> list_all is_space ''hello there'' \<and>
   (\<exists>r. analyze (\<lambda>s. Inl LookupError) ''hello there'' None = Inr r \<and>
        0 \<le> riskScore r \<and> riskScore r \<le> 100)"
proof -
  have a: "''hello there'' \<noteq> []" by simp
  have b: "\<not> list_all is_space ''hello there''" by (simp add: is_space_def)
  show ?thesis
    using a b risk_score_in_range [OF a b, of "\<lambda>s. Inl LookupError" None] by blast
qed

text \<open>
  C6: \<open>analyze\<close> raises its one error, the \<open>ValueError\<close> of the empty-transcript check,
  exactly when the transcript is empty or whitespace-only, and then returns no result;
  on every other transcript it returns a result and raises nothing.
\<close>

theorem analyze_error_iff_blank:
  "(if transcript = [] \<or> list_all is_space transcript
    then analyze sent_tokenize transcript md = Inl ValueError
    else (\<exists>r. analyze sent_tokenize transcript md = Inr r))"
proof (cases "transcript = [] \<or> list_all is_space transcript")
  case True
  then show ?thesis using analyze_blank [of transcript sent_tokenize md] by simp
next
  case False
  then have "\<not> list_all is_space transcript" by simp
  from analyze_returns [OF this, of md sent_tokenize]
  have "\<exists>r. analyze sent_tokenize transcript md = Inr r" unfolding Let_def by blast
  then show ?thesis using False by simp
qed

theorem analyze_error_iff_blank_witness:
  "analyze (\<lambda>s. Inl LookupError) [] None = Inl ValueError \<and>
   analyze (\<lambda>s. Inl LookupError) ''   '' None = Inl ValueError \<and>
   (\<exists>r. analyze (\<lambda>s. Inl LookupError) ''hello there'' None = Inr r)"
  using analyze_error_iff_blank [of "[]" "\<lambda>s. Inl LookupError" None]
        analyze_error_iff_blank [of "''   ''" "\<lambda>s. Inl LookupError" None]
        analyze_error_iff_blank [of "''hello there''" "\<lambda>s. Inl LookupError" None]
  by (simp add: is_space_def)

text \<open>
  C7: the output of \<open>analyze\<close> is a function of the transcript and the metadata alone.
  The one thing outside the analyzer that a call consults is the external sentence
  splitter (which may also raise, when its resources are missing); whatever it does, the
  risk score, the explanation and the metrics are the same.
\<close>

theorem analyze_independent_of_sentence_splitter:
  "analyze sent_tokenize transcript md = analyze sent_tokenize' transcript md"
proof (cases "list_all is_space transcript")
  case True
  then show ?thesis by (simp add: analyze_blank)
next
  case False
  from analyze_returns [OF False, of md sent_tokenize]
  obtain sr vr fs rs wfd where
    v: "calculate_speech_rate (tokenize_words (clean_text transcript)) md = Inr sr"
       "calculate_vocabulary_richness (tokenize_words (clean_text transcript)) = Inr vr"
       "calculate_fluency_score transcript (tokenize_words (clean_text transcript)) = Inr fs"
       "analyze_repetitions (tokenize_words (clean_text transcript)) = Inr rs"
       "analyze_word_finding transcript (tokenize_words (clean_text transcript)) = Inr wfd"
    and a: "analyze sent_tokenize transcript md =
             (let risk = min 100 (max 0 (py_round (reference_sum
                    \<lparr>speech_rate = sr, pause_count = estimate_pause_count transcript,
                     vocabulary_richness = vr, fluency_score = fs, semantic_fluency = 0,
                     syntactic_complexity = 0, repetition_score = rs,
                     word_finding_difficulty = wfd\<rparr>)))
              in Inr \<lparr>riskScore = risk,
                  explanation = generate_explanation (of_int risk)
                    \<lparr>ex_speech_rate = sr, ex_pause_count = estimate_pause_count transcript,
                     ex_vocabulary_richness = vr, ex_fluency_score = fs\<rparr>,
                  metrics = \<lparr>speechRate = sr, pauseCount = estimate_pause_count transcript,
                             vocabularyRichness = vr, fluencyScore = fs\<rparr>\<rparr>)"
    by blast
  from analyze_returns [OF False, of md sent_tokenize']
  obtain sr' vr' fs' rs' wfd' where
    v': "calculate_speech_rate (tokenize_words (clean_text transcript)) md = Inr sr'"
       "calculate_vocabulary_richness (tokenize_words (clean_text transcript)) = Inr vr'"
       "calculate_fluency_score transcript (tokenize_words (clean_text transcript)) = Inr fs'"
       "analyze_repetitions (tokenize_words (clean_text transcript)) = Inr rs'"
       "analyze_word_finding transcript (tokenize_words (clean_text transcript)) = Inr wfd'"
    and a': "analyze sent_tokenize' transcript md =
             (let risk = min 100 (max 0 (py_round (reference_sum
                    \<lparr>speech_rate = sr', pause_count = estimate_pause_count transcript,
                     vocabulary_richness = vr', fluency_score = fs', semantic_fluency = 0,
                     syntactic_complexity = 0, repetition_score = rs',
                     word_finding_difficulty = wfd'\<rparr>)))
              in Inr \<lparr>riskScore = risk,
                  explanation = generate_explanation (of_int risk)
                    \<lparr>ex_speech_rate = sr', ex_pause_count = estimate_pause_count transcript,
                     ex_vocabulary_richness = vr', ex_fluency_score = fs'\<rparr>,
                  metrics = \<lparr>speechRate = sr', pauseCount = estimate_pause_count transcript,
                             vocabularyRichness = vr', fluencyScore = fs'\<rparr>\<rparr>)"
    by blast
  from v v' have "sr' = sr" "vr' = vr" "fs' = fs" "rs' = rs" "wfd' = wfd" by simp_all
  with a a' show ?thesis by (simp only:)
qed

text \<open>
  C9: whenever \<open>analyze\<close> returns, the reported vocabulary richness lies in \<open>[0, 1]\<close>
  (and is 0 when the token sequence is empty) and the reported fluency score lies in
  \<open>[0, 10]\<close>.
\<close>

theorem metrics_in_range:
  "analyze sent_tokenize transcript md = Inr r \<Longrightarrow>
   0 \<le> vocabularyRichness (metrics r) \<and> vocabularyRichness (metrics r) \<le> 1 \<and>
   0 \<le> fluencyScore (metrics r) \<and> fluencyScore (metrics r) \<le> 10 \<and>
   (tokenize_words (clean_text transcript) = [] \<longrightarrow> vocabularyRichness (metrics r) = 0)"
proof -
  assume r: "analyze sent_tokenize transcript md = Inr r"
  have nb: "\<not> list_all is_space transcript"
  proof
    assume "list_all is_space transcript"
    then have "analyze sent_tokenize transcript md = Inl ValueError" by (simp add: analyze_blank)
    with r show False by simp
  qed
  from analyze_returns [OF nb, of md sent_tokenize] r
  obtain vr fs where
    vr: "calculate_vocabulary_richness (tokenize_words (clean_text transcript)) = Inr vr" and
    fs: "calculate_fluency_score transcript (tokenize_words (clean_text transcript)) = Inr fs" and
    m: "vocabularyRichness (metrics r) = vr" "fluencyScore (metrics r) = fs"
    unfolding Let_def by force
  from calculate_vocabulary_richness_bounds [of "tokenize_words (clean_text transcript)"] vr
  have "0 \<le> vr \<and> vr \<le> 1 \<and> (tokenize_words (clean_text transcript) = [] \<longrightarrow> vr = 0)" by simp
  moreover from calculate_fluency_score_Inr [of transcript "tokenize_words (clean_text transcript)"] fs
  have "0 \<le> fs \<and> fs \<le> 10" by simp
  ultimately show ?thesis using m by simp
qed

theorem metrics_in_range_witness:
  "\<exists>r. analyze (\<lambda>s. Inl LookupError) ''um, well'' None = Inr r \<and>
       0 \<le> vocabularyRichness (metrics r) \<and> vocabularyRichness (metrics r) \<le> 1 \<and>
       0 \<le> fluencyScore (metrics r) \<and> fluencyScore (metrics r) \<le> 10"
proof -
  have a: "analyze (\<lambda>s. Inl LookupError) ''um, well'' None =
     Inr \<lparr>riskScore = 50,
          explanation = ''Some speech patterns may warrant attention, showing mild concerns in certain areas. Speech rate is notably slow at 60.0 words/minute (typical range: 120-180). Fluency score is concerning (0.0/10), with evidence of hesitations or word-finding issues.'',
          metrics = \<lparr>speechRate = 60, pauseCount = 2, vocabularyRichness = 1, fluencyScore = 0\<rparr>\<rparr>"
    by code_simp
  show ?thesis using a metrics_in_range [OF a] by blast
qed

text \<open>
  C10: no feature extractor divides by zero, on any token sequence, sentence sequence or
  transcript, the empty ones included: each returns a value.  Vocabulary richness is 0
  for an empty token list and syntactic complexity is 0 when there are no sentences.
  The transcript \<open>a a a\<close> has an empty token sequence, \<open>analyze\<close> never raises a division
  error, and on every transcript that is neither empty nor whitespace-only it returns a
  full result.
\<close>

theorem extractors_total:
  "(\<exists>v. calculate_speech_rate words md = Inr v) \<and>
   (\<exists>v. calculate_vocabulary_richness words = Inr v) \<and>
   (\<exists>v. calculate_fluency_score transcript words = Inr v) \<and>
   (\<exists>v. analyze_semantic_fluency words = Inr v) \<and>
   (\<exists>v. analyze_syntactic_complexity sentences = Inr v) \<and>
   (\<exists>v. analyze_repetitions words = Inr v) \<and>
   (\<exists>v. analyze_word_finding transcript words = Inr v) \<and>
   calculate_vocabulary_richness [] = Inr 0 \<and>
   analyze_syntactic_complexity [] = Inr 0 \<and>
   tokenize_words (clean_text ''a a a'') = [] \<and>
   analyze sent_tokenize transcript md \<noteq> Inl ZeroDivisionError \<and>
   (transcript \<noteq> [] \<and> \<not> list_all is_space transcript \<longrightarrow>
      (\<exists>r. analyze sent_tokenize transcript md = Inr r))"
proof -
  have e1: "\<exists>v. calculate_speech_rate words md = Inr v"
    by (rule calculate_speech_rate_total)
  have e2: "\<exists>v. calculate_vocabulary_richness words = Inr v"
    by (simp add: calculate_vocabulary_richness_Inr)
  have e3: "\<exists>v. calculate_fluency_score transcript words = Inr v"
    using calculate_fluency_score_Inr [of transcript words] by blast
  have e4: "\<exists>v. analyze_semantic_fluency words = Inr v"
    by (rule analyze_semantic_fluency_total)
  have e5: "\<exists>v. analyze_syntactic_complexity sentences = Inr v"
    by (rule analyze_syntactic_complexity_total)
  have e6: "\<exists>v. analyze_repetitions words = Inr v"
    by (simp add: analyze_repetitions_Inr)
  have e7: "\<exists>v. analyze_word_finding transcript words = Inr v"
    by (simp add: analyze_word_finding_Inr)
  have z1: "calculate_vocabulary_richness [] = Inr 0"
    by (simp add: calculate_vocabulary_richness_def)
  have z2: "analyze_syntactic_complexity [] = Inr 0"
    by (simp add: analyze_syntactic_complexity_def)
  have ex: "tokenize_words (clean_text ''a a a'') = []"
    by code_simp
  have ret: "\<exists>r. analyze sent_tokenize transcript md = Inr r" if "\<not> list_all is_space transcript"
    using analyze_returns [OF that, of md sent_tokenize] unfolding Let_def by blast
  have nz: "analyze sent_tokenize transcript md \<noteq> Inl ZeroDivisionError"
  proof (cases "list_all is_space transcript")
    case True
    then show ?thesis by (simp add: analyze_blank)
  next
    case False
    then show ?thesis using ret by auto
  qed
  show ?thesis using e1 e2 e3 e4 e5 e6 e7 z1 z2 ex nz ret by blast
qed

theorem extractors_total_witness:
  "''a a a'' \<noteq> [] \<and> \<not> list_all is_space ''a a a'' \<and>
   tokenize_words (clean_text ''a a a'') = [] \<and>
   (\<exists>v. calculate_speech_rate [] None = Inr v) \<and>
   (\<exists>v. calculate_fluency_score ''a a a'' [] = Inr v) \<and>
   (\<exists>v. analyze_repetitions [] = Inr v) \<and>
   (\<exists>v. analyze_word_finding ''a a a'' [] = Inr v) \<and>
   (\<exists>r. analyze (\<lambda>s. Inl LookupError) ''a a a'' None = Inr r)"
proof -
  have a: "''a a a'' \<noteq> []" by simp
  have b: "\<not> list_all is_space ''a a a''" by (simp add: is_space_def)
  show ?thesis
    using a b extractors_total [of "[]" None "''a a a''" "[]" "\<lambda>s. Inl LookupError"]
    by blast
qed


text \<open>
  C4: the fluency score of the code at the transcript \<open>you know i mean it\<close>.  The four
  tokens hold no filler, repetition and word-finding difficulty are 0, and the code
  returns 10; with the two filler phrases counted as substrings of the transcript, as the
  claim has it, the filler ratio is one half and the score is 0.
\<close>

theorem fluency_score_ignores_filler_phrases:
  "tokenize_words (clean_text ''you know i mean it'') = [''you'', ''know'', ''mean'', ''it''] \<and>
   analyze_repetitions [''you'', ''know'', ''mean'', ''it''] = Inr 0 \<and>
   analyze_word_finding ''you know i mean it'' [''you'', ''know'', ''mean'', ''it''] = Inr 0 \<and>
   calculate_fluency_score ''you know i mean it'' [''you'', ''know'', ''mean'', ''it''] = Inr 10 \<and>
   filler_word_count_spec ''you know i mean it'' [''you'', ''know'', ''mean'', ''it''] = 2 \<and>
   fluency_score_spec ''you know i mean it'' [''you'', ''know'', ''mean'', ''it''] 0 0 = 0"
  by code_simp


text \<open>
  C5: the explanation of the code where no conditional sentence triggers: it is the
  overall-tier sentence alone.  The sentence that all metrics are normal is not appended,
  because the list of sentences already holds the tier sentence when the code tests it
  for emptiness.  So it is for the boundary values (speech rate 80, pause count 10,
  vocabulary richness 0.4, fluency score 5), and for the transcript
  \<open>the quick brown fox jumps\<close> spoken in three seconds, on which \<open>analyze\<close> reports a speech
  rate of 100, one pause, a vocabulary richness of 1 and a fluency score of 10.
\<close>

theorem explanation_without_all_normal_sentence:
  "generate_explanation 25
     \<lparr>ex_speech_rate = 80, ex_pause_count = 10, ex_vocabulary_richness = 4 / 10,
      ex_fluency_score = 5\<rparr> =
     ''Speech patterns appear normal with good fluency and vocabulary use.'' \<and>
   analyze (\<lambda>s. Inl LookupError) ''the quick brown fox jumps'' (Some [(''duration'', 3)]) =
     Inr \<lparr>riskScore = 0,
          explanation = ''Speech patterns appear normal with good fluency and vocabulary use.'',
          metrics = \<lparr>speechRate = 100, pauseCount = 1, vocabularyRichness = 1,
                     fluencyScore = 10\<rparr>\<rparr>"
  by code_simp

end
